theory Spec2Isabelle
  imports Main
begin

section \<open>Python values of the Freshmaker feed\<close>

text \<open>
  The scraper reads JSON and database rows, whose scalar fields are dynamically typed.
  A field is \<open>None\<close>, a boolean, an integer or a string (floating point numbers
  and nested containers are outside the model). The exceptions that can leave
  \<open>query_api_and_update_neo4j\<close> are values of \<open>error\<close>.
\<close>

datatype error =
    ValueError
  | TypeError
  | ParseError
  | ConstraintValidationFailed
  | RequestError

datatype pyval = PNone | PBool bool | PInt int | PStr string

text \<open>Truth value testing, \<^verbatim>\<open>not v\<close>.\<close>

fun falsy :: "pyval \<Rightarrow> bool" where
  "falsy PNone = True"
| "falsy (PBool b) = (\<not> b)"
| "falsy (PInt n) = (n = 0)"
| "falsy (PStr s) = (s = [])"

text \<open>
  \<^verbatim>\<open>int(v)\<close> on a string: surrounding whitespace is stripped, one sign is
  allowed, then decimal digits, where single underscores may separate digits. Anything
  else raises \<open>ValueError\<close>. \<^verbatim>\<open>int(None)\<close> raises \<open>TypeError\<close>.
  A \<open>char\<close> stands for the code point of its number, so a string is a text of code
  points below 256; the whitespace among them is the ASCII whitespace, the separators
  \<open>0x1C\<close> to \<open>0x1F\<close>, the next-line control \<open>0x85\<close> and the no-break space
  \<open>0xA0\<close>, and the decimal digits among them are \<open>0\<close> to \<open>9\<close>.
\<close>

definition is_space :: "char \<Rightarrow> bool" where
  "is_space c =
     (c \<in> set [CHR '' '', CHR 0x09, CHR 0x0A, CHR 0x0B, CHR 0x0C, CHR 0x0D,
        CHR 0x1C, CHR 0x1D, CHR 0x1E, CHR 0x1F, CHR 0x85, CHR 0xA0])"

definition digit_val :: "char \<Rightarrow> nat option" where
  "digit_val c = map_of (zip ''0123456789'' [0, 1, 2, 3, 4, 5, 6, 7, 8, 9]) c"

fun digits :: "nat \<Rightarrow> string \<Rightarrow> nat option" where
  "digits acc [] = Some acc"
| "digits acc (c # cs) =
     (if c = CHR ''_'' then
        (case cs of
           [] \<Rightarrow> None
         | d # ds \<Rightarrow> (case digit_val d of None \<Rightarrow> None | Some v \<Rightarrow> digits (10 * acc + v) ds))
      else (case digit_val c of None \<Rightarrow> None | Some v \<Rightarrow> digits (10 * acc + v) cs))"

definition strip :: "string \<Rightarrow> string" where
  "strip s = rev (dropWhile is_space (rev (dropWhile is_space s)))"

definition unsigned :: "string \<Rightarrow> nat option" where
  "unsigned s =
     (case s of
        [] \<Rightarrow> None
      | c # cs \<Rightarrow> (case digit_val c of None \<Rightarrow> None | Some v \<Rightarrow> digits v cs))"

definition int_of_str :: "string \<Rightarrow> int option" where
  "int_of_str s =
     (case strip s of
        [] \<Rightarrow> None
      | c # cs \<Rightarrow>
          if c = CHR ''-'' then map_option (\<lambda>n. - int n) (unsigned cs)
          else if c = CHR ''+'' then map_option int (unsigned cs)
          else map_option int (unsigned (c # cs)))"

fun py_int :: "pyval \<Rightarrow> error + int" where
  "py_int PNone = Inl TypeError"
| "py_int (PBool b) = Inr (if b then 1 else 0)"
| "py_int (PInt n) = Inr n"
| "py_int (PStr s) = (case int_of_str s of None \<Rightarrow> Inl ValueError | Some n \<Rightarrow> Inr n)"

section \<open>The task result as an element tree\<close>

text \<open>
  \<^verbatim>\<open>ET.fromstring\<close> gives a tree of elements, each with a tag, its text, the
  text after its end tag (tail) and its children. The parser itself is a parameter of the
  environment below; what the scraper does with the tree is modelled here.

  \<^verbatim>\<open>xml_root.find(".//*[name='koji_builds'].//string")\<close> selects, in document
  order, every proper descendant of the root that has a child \<open>name\<close> whose joined text
  is \<open>koji_builds\<close>, then every proper descendant of those with tag \<open>string\<close>, and
  returns the first one, or \<open>None\<close>.
\<close>

datatype element =
  Element (tag: string) (etext: "string option") (tail: "string option")
    (children: "element list")

definition str_of :: "string option \<Rightarrow> string" where
  "str_of t = (case t of None \<Rightarrow> [] | Some s \<Rightarrow> s)"

fun itertext :: "element \<Rightarrow> string" where
  "itertext (Element t tx ta cs) =
     str_of tx @ concat (map (\<lambda>e. itertext e @ str_of (tail e)) cs)"

fun iter :: "element \<Rightarrow> element list" where
  "iter (Element t tx ta cs) = Element t tx ta cs # concat (map iter cs)"

definition descendants :: "element \<Rightarrow> element list" where
  "descendants e = tl (iter e)"

definition has_name :: "string \<Rightarrow> element \<Rightarrow> bool" where
  "has_name v elem = list_ex (\<lambda>e. tag e = ''name'' \<and> itertext e = v) (children elem)"

definition findall_koji_builds :: "element \<Rightarrow> element list" where
  "findall_koji_builds xml_root =
     concat (map (\<lambda>elem. filter (\<lambda>e. tag e = ''string'') (descendants elem))
       (filter (has_name ''koji_builds'') (descendants xml_root)))"

definition find_koji_builds :: "element \<Rightarrow> element option" where
  "find_koji_builds xml_root =
     (case findall_koji_builds xml_root of [] \<Rightarrow> None | e # _ \<Rightarrow> Some e)"

text \<open>
  Lines 84 to 87: the text of the element found; an \<open>AttributeError\<close> (nothing
  found) gives \<open>None\<close>.
\<close>

definition extract_build_id :: "element \<Rightarrow> string option" where
  "extract_build_id xml_root =
     (case find_koji_builds xml_root of None \<Rightarrow> None | Some e \<Rightarrow> etext e)"

section \<open>The collaborators\<close>

text \<open>
  A page of the events API has its \<open>items\<close> and the \<open>next\<close> reference of its
  \<open>meta\<close> object; an event record has the fields the scraper reads.
\<close>

record build_dict =
  build_id :: pyval
  original_nvr :: pyval

record fm_event =
  event_id :: pyval
  event_type_id :: pyval
  message_id :: pyval
  state :: pyval
  state_name :: pyval
  state_reason :: pyval
  url :: pyval
  search_key :: pyval
  builds :: "build_dict list"

record page =
  items :: "fm_event list"
  meta_next :: "string option"

type_synonym row = "string \<rightharpoonup> pyval"

text \<open>
  The environment of a run: the HTTP session (a request that fails, or whose body is
  not JSON, raises), the Teiid query for a task id (the rows it returns) and the XML
  parser (\<open>None\<close> when the document is not well-formed, where
  \<^verbatim>\<open>ET.fromstring\<close> raises \<open>ParseError\<close>).
\<close>

record env =
  http_get :: "string \<Rightarrow> error + page"
  teiid_query :: "pyval \<Rightarrow> error + row list"
  fromstring :: "string \<Rightarrow> element option"

datatype label = FreshmakerEvent | Advisory | KojiBuild | ContainerKojiBuild

datatype rel = triggered_by_advisory | triggered_container_builds

type_synonym props = "(string \<times> pyval) list"

type_synonym node_ref = nat

text \<open>
  The graph client is a parameter too: the operations of the node classes that the
  scraper calls, over any type \<open>'g\<close> of graphs. The two create operations can raise.
\<close>

record 'g neo4j =
  create_or_update :: "label \<Rightarrow> props \<Rightarrow> 'g \<Rightarrow> error + node_ref \<times> 'g"
  get_or_create :: "label \<Rightarrow> props \<Rightarrow> 'g \<Rightarrow> error + node_ref \<times> 'g"
  get_or_none :: "label \<Rightarrow> pyval \<Rightarrow> 'g \<Rightarrow> node_ref option"
  add_label :: "node_ref \<Rightarrow> label \<Rightarrow> 'g \<Rightarrow> 'g"
  conditional_connect :: "node_ref \<Rightarrow> rel \<Rightarrow> node_ref \<Rightarrow> 'g \<Rightarrow> 'g"
  connect :: "node_ref \<Rightarrow> rel \<Rightarrow> node_ref \<Rightarrow> 'g \<Rightarrow> 'g"

text \<open>
  The state of a run is the graph and the list of the calls made to the collaborators so
  far, oldest first.
\<close>

datatype call =
    HttpGet string
  | TeiidQuery pyval
  | CreateOrUpdate label props
  | GetOrCreate label props
  | GetOrNone label pyval
  | AddLabel node_ref label
  | ConditionalConnect node_ref rel node_ref
  | Connect node_ref rel node_ref

record 'g state =
  graph :: 'g
  calls :: "call list"

definition called :: "call \<Rightarrow> 'g state \<Rightarrow> 'g state" where
  "called c s = s\<lparr>calls := calls s @ [c]\<rparr>"

section \<open>The scraper\<close>

text \<open>
  \<open>get_koji_task_result\<close>: the \<open>result\<close> column of the first row, and \<open>None\<close>
  on \<open>IndexError\<close> (no row) or \<open>KeyError\<close> (no such column).
\<close>

definition get_koji_task_result ::
  "env \<Rightarrow> pyval \<Rightarrow> 'g state \<Rightarrow> (error + pyval) \<times> 'g state" where
  "get_koji_task_result e task_id s =
     (case teiid_query e task_id of
        Inl err \<Rightarrow> (Inl err, called (TeiidQuery task_id) s)
      | Inr rows \<Rightarrow>
          (case rows of
             [] \<Rightarrow> (Inr PNone, called (TeiidQuery task_id) s)
           | r # _ \<Rightarrow>
               (case r ''result'' of
                  None \<Rightarrow> (Inr PNone, called (TeiidQuery task_id) s)
                | Some v \<Rightarrow> (Inr v, called (TeiidQuery task_id) s))))"

text \<open>Line 82: \<^verbatim>\<open>ET.fromstring(task_result)\<close>, outside every \<open>try\<close>.\<close>

definition et_fromstring :: "env \<Rightarrow> pyval \<Rightarrow> error + element" where
  "et_fromstring e v =
     (case v of
        PStr s \<Rightarrow> (case fromstring e s of None \<Rightarrow> Inl ParseError | Some xml_root \<Rightarrow> Inr xml_root)
      | _ \<Rightarrow> Inl TypeError)"

text \<open>
  Lines 72 to 90 of the loop over \<open>fm_event['builds']\<close>: from the filter on the task
  id to the build id read from the task result. \<open>Inr None\<close> is a \<open>continue\<close>,
  \<open>Inl\<close> an exception that nothing catches.
\<close>

definition resolve_build_id ::
  "env \<Rightarrow> build_dict \<Rightarrow> 'g state \<Rightarrow> (error + string option) \<times> 'g state" where
  "resolve_build_id e bd s =
     (if falsy (build_id bd) then (Inr None, s)
      else case py_int (build_id bd) of
        Inl err \<Rightarrow> (Inl err, s)
      | Inr n \<Rightarrow>
          if n < 0 then (Inr None, s)
          else case get_koji_task_result e (build_id bd) s of
            (Inl err, s1) \<Rightarrow> (Inl err, s1)
          | (Inr task_result, s1) \<Rightarrow>
              if falsy task_result then (Inr None, s1)
              else case et_fromstring e task_result of
                Inl err \<Rightarrow> (Inl err, s1)
              | Inr xml_root \<Rightarrow>
                  (case extract_build_id xml_root of
                     None \<Rightarrow> (Inr None, s1)
                   | Some bid \<Rightarrow> if bid = [] then (Inr None, s1) else (Inr (Some bid), s1)))"

text \<open>
  Lines 97 to 108: the typed create-or-update, and on a constraint violation the
  lookup of the node as a \<open>KojiBuild\<close>, the added label and the second attempt.
\<close>

definition create_container_build ::
  "'g neo4j \<Rightarrow> props \<Rightarrow> pyval \<Rightarrow> 'g state \<Rightarrow> (error + node_ref) \<times> 'g state" where
  "create_container_build cl build_params bid s =
     (let s1 = called (CreateOrUpdate ContainerKojiBuild build_params) s in
      case create_or_update cl ContainerKojiBuild build_params (graph s1) of
        Inr (b, g) \<Rightarrow> (Inr b, s1\<lparr>graph := g\<rparr>)
      | Inl err \<Rightarrow>
          if err = ConstraintValidationFailed then
            (let s2 = called (GetOrNone KojiBuild bid) s1 in
             case get_or_none cl KojiBuild bid (graph s2) of
               None \<Rightarrow> (Inl err, s2)
             | Some b \<Rightarrow>
                 (let s3 = (called (AddLabel b ContainerKojiBuild) s2)
                        \<lparr>graph := add_label cl b ContainerKojiBuild (graph s2)\<rparr>;
                      s4 = called (CreateOrUpdate ContainerKojiBuild build_params) s3 in
                  case create_or_update cl ContainerKojiBuild build_params (graph s4) of
                    Inr (b', g) \<Rightarrow> (Inr b', s4\<lparr>graph := g\<rparr>)
                  | Inl err' \<Rightarrow> (Inl err', s4)))
          else (Inl err, s1))"

definition build_params :: "string \<Rightarrow> build_dict \<Rightarrow> props" where
  "build_params bid bd = [(''id_'', PStr bid), (''original_nvr'', original_nvr bd)]"

definition process_build ::
  "'g neo4j \<Rightarrow> env \<Rightarrow> node_ref \<Rightarrow> build_dict \<Rightarrow> 'g state \<Rightarrow> error option \<times> 'g state" where
  "process_build cl e event bd s =
     (case resolve_build_id e bd s of
        (Inl err, s1) \<Rightarrow> (Some err, s1)
      | (Inr None, s1) \<Rightarrow> (None, s1)
      | (Inr (Some bid), s1) \<Rightarrow>
          (case create_container_build cl (build_params bid bd) (PStr bid) s1 of
             (Inl err, s2) \<Rightarrow> (Some err, s2)
           | (Inr b, s2) \<Rightarrow>
               (None, (called (Connect event triggered_container_builds b) s2)
                  \<lparr>graph := connect cl event triggered_container_builds b (graph s2)\<rparr>)))"

fun process_builds ::
  "'g neo4j \<Rightarrow> env \<Rightarrow> node_ref \<Rightarrow> build_dict list \<Rightarrow> 'g state \<Rightarrow> error option \<times> 'g state" where
  "process_builds cl e event [] s = (None, s)"
| "process_builds cl e event (bd # bds) s =
     (case process_build cl e event bd s of
        (Some err, s1) \<Rightarrow> (Some err, s1)
      | (None, s1) \<Rightarrow> process_builds cl e event bds s1)"

definition event_params :: "fm_event \<Rightarrow> props" where
  "event_params ev =
     [(''id_'', event_id ev), (''event_type_id'', event_type_id ev),
      (''message_id'', message_id ev), (''state'', state ev),
      (''state_name'', state_name ev), (''state_reason'', state_reason ev),
      (''url'', url ev)]"

definition advisory_params :: "fm_event \<Rightarrow> props" where
  "advisory_params ev = [(''id_'', search_key ev)]"

text \<open>
  Lines 48 to 110, the body of the loop over the items of a page. Only a
  \<open>ValueError\<close> of the conversion of \<open>search_key\<close> is caught.
\<close>

definition process_event ::
  "'g neo4j \<Rightarrow> env \<Rightarrow> fm_event \<Rightarrow> 'g state \<Rightarrow> error option \<times> 'g state" where
  "process_event cl e ev s =
     (case py_int (search_key ev) of
        Inl err \<Rightarrow> if err = ValueError then (None, s) else (Some err, s)
      | Inr _ \<Rightarrow>
          (let s1 = called (CreateOrUpdate FreshmakerEvent (event_params ev)) s in
           case create_or_update cl FreshmakerEvent (event_params ev) (graph s1) of
             Inl err \<Rightarrow> (Some err, s1)
           | Inr (event, g1) \<Rightarrow>
               (let s2 = called (GetOrCreate Advisory (advisory_params ev)) (s1\<lparr>graph := g1\<rparr>) in
                case get_or_create cl Advisory (advisory_params ev) (graph s2) of
                  Inl err \<Rightarrow> (Some err, s2)
                | Inr (advisory, g2) \<Rightarrow>
                    process_builds cl e event (builds ev)
                      ((called (ConditionalConnect event triggered_by_advisory advisory) s2)
                         \<lparr>graph := conditional_connect cl event triggered_by_advisory advisory g2\<rparr>))))"

fun process_events ::
  "'g neo4j \<Rightarrow> env \<Rightarrow> fm_event list \<Rightarrow> 'g state \<Rightarrow> error option \<times> 'g state" where
  "process_events cl e [] s = (None, s)"
| "process_events cl e (ev # evs) s =
     (case process_event cl e ev s of
        (Some err, s1) \<Rightarrow> (Some err, s1)
      | (None, s1) \<Rightarrow> process_events cl e evs s1)"

text \<open>
  The \<^verbatim>\<open>while True\<close> loop over the pages. It runs for as long as the pages
  carry a \<open>next\<close> reference, so it is a partial function: \<open>None\<close> is a run that never
  returns.
\<close>

partial_function (option) query_loop ::
  "'g neo4j \<Rightarrow> env \<Rightarrow> string \<Rightarrow> 'g state \<Rightarrow> (error option \<times> 'g state) option" where
  "query_loop cl e fm_url s =
     (case http_get e fm_url of
        Inl err \<Rightarrow> Some (Some err, called (HttpGet fm_url) s)
      | Inr rv_json \<Rightarrow>
          (case process_events cl e (items rv_json) (called (HttpGet fm_url) s) of
             (Some err, s1) \<Rightarrow> Some (Some err, s1)
           | (None, s1) \<Rightarrow>
               (case meta_next rv_json of
                  None \<Rightarrow> Some (None, s1)
                | Some nxt \<Rightarrow> if nxt = [] then Some (None, s1) else query_loop cl e nxt s1)))"

declare query_loop.simps [code]

definition freshmaker_url :: string where
  "freshmaker_url = ''https://freshmaker.engineering.redhat.com/api/1/events/?per_page=100''"

definition query_api_and_update_neo4j ::
  "'g neo4j \<Rightarrow> env \<Rightarrow> 'g state \<Rightarrow> (error option \<times> 'g state) option" where
  "query_api_and_update_neo4j cl e s = query_loop cl e freshmaker_url s"

text \<open>\<open>run\<close> ignores \<open>since\<close> and \<open>until\<close> (it only logs a warning).\<close>

definition run ::
  "'g neo4j \<Rightarrow> env \<Rightarrow> pyval \<Rightarrow> pyval \<Rightarrow> 'g state \<Rightarrow> (error option \<times> 'g state) option" where
  "run cl e since until s = query_api_and_update_neo4j cl e s"

section \<open>The graph store\<close>

text \<open>
  Modelled from the spec: the graph store client and the node classes of
  \<open>estuary.models\<close> (\<open>FreshmakerEvent\<close>, \<open>Advisory\<close>, \<open>KojiBuild\<close>,
  \<open>ContainerKojiBuild\<close> and their \<open>conditional_connect\<close> and \<open>add_label\<close>) are not
  part of the sources. The spec gives their contract: a typed create-or-update that
  returns the node, label add, an idempotent relationship connect, a lookup by id that
  returns the node or none, and uniqueness of the identity within each declared type; a
  \<open>ContainerKojiBuild\<close> is also a \<open>KojiBuild\<close>; connecting an event to its advisory is
  an idempotent connect, a no-op if the edge is already present.

  A node carries its labels and its properties, the identity under the key \<open>id_\<close>.
  Nodes are never deleted, so a node is referred to by its position in the store.
\<close>

record node =
  labels :: "label list"
  attrs :: "string \<rightharpoonup> pyval"

record store =
  nodes :: "node list"
  edges :: "(node_ref \<times> rel \<times> node_ref) list"

text \<open>Modelled from the spec: the labels a node of a class carries.\<close>

fun class_labels :: "label \<Rightarrow> label list" where
  "class_labels ContainerKojiBuild = [ContainerKojiBuild, KojiBuild]"
| "class_labels c = [c]"

text \<open>
  Modelled from the spec: a node is a node of class \<open>c\<close> with identity \<open>i\<close> when it
  carries all the labels of \<open>c\<close>; it claims the identity \<open>i\<close> against \<open>c\<close> when it
  carries one of them.
\<close>

definition matches :: "label \<Rightarrow> pyval option \<Rightarrow> node \<Rightarrow> bool" where
  "matches c i n = (list_all (\<lambda>l. l \<in> set (labels n)) (class_labels c) \<and> attrs n ''id_'' = i)"

definition claims :: "label \<Rightarrow> pyval option \<Rightarrow> node \<Rightarrow> bool" where
  "claims c i n = (list_ex (\<lambda>l. l \<in> set (labels n)) (class_labels c) \<and> attrs n ''id_'' = i)"

fun first_index :: "('a \<Rightarrow> bool) \<Rightarrow> 'a list \<Rightarrow> nat option" where
  "first_index P [] = None"
| "first_index P (x # xs) = (if P x then Some 0 else map_option Suc (first_index P xs))"

definition set_attrs :: "props \<Rightarrow> node \<Rightarrow> node" where
  "set_attrs p n = n\<lparr>attrs := attrs n ++ map_of p\<rparr>"

text \<open>
  Modelled from the spec: create-or-update. The node of the class with this identity
  gets the properties; without one, a node that claims the identity under one of the
  labels is a uniqueness violation; otherwise the node is created.
\<close>

definition store_create_or_update :: "label \<Rightarrow> props \<Rightarrow> store \<Rightarrow> error + node_ref \<times> store" where
  "store_create_or_update c p g =
     (case first_index (matches c (map_of p ''id_'')) (nodes g) of
        Some i \<Rightarrow> Inr (i, g\<lparr>nodes := (nodes g)[i := set_attrs p (nodes g ! i)]\<rparr>)
      | None \<Rightarrow>
          if list_ex (claims c (map_of p ''id_'')) (nodes g) then Inl ConstraintValidationFailed
          else Inr (length (nodes g),
                 g\<lparr>nodes := nodes g @ [\<lparr>labels = class_labels c, attrs = map_of p\<rparr>]\<rparr>))"

text \<open>Modelled from the spec: get-or-create leaves an existing node as it is.\<close>

definition store_get_or_create :: "label \<Rightarrow> props \<Rightarrow> store \<Rightarrow> error + node_ref \<times> store" where
  "store_get_or_create c p g =
     (case first_index (matches c (map_of p ''id_'')) (nodes g) of
        Some i \<Rightarrow> Inr (i, g)
      | None \<Rightarrow>
          if list_ex (claims c (map_of p ''id_'')) (nodes g) then Inl ConstraintValidationFailed
          else Inr (length (nodes g),
                 g\<lparr>nodes := nodes g @ [\<lparr>labels = class_labels c, attrs = map_of p\<rparr>]\<rparr>))"

text \<open>Modelled from the spec: the lookup by id, the node or none.\<close>

definition store_get_or_none :: "label \<Rightarrow> pyval \<Rightarrow> store \<Rightarrow> node_ref option" where
  "store_get_or_none c i g = first_index (matches c (Some i)) (nodes g)"

text \<open>Modelled from the spec: the label is added to the node in place.\<close>

definition store_add_label :: "node_ref \<Rightarrow> label \<Rightarrow> store \<Rightarrow> store" where
  "store_add_label b l g =
     (if b < length (nodes g) \<and> l \<notin> set (labels (nodes g ! b))
      then g\<lparr>nodes := (nodes g)[b := (nodes g ! b)\<lparr>labels := labels (nodes g ! b) @ [l]\<rparr>]\<rparr>
      else g)"

text \<open>Modelled from the spec: connecting twice is a no-op.\<close>

definition store_connect :: "node_ref \<Rightarrow> rel \<Rightarrow> node_ref \<Rightarrow> store \<Rightarrow> store" where
  "store_connect a r b g =
     (if (a, r, b) \<in> set (edges g) then g else g\<lparr>edges := edges g @ [(a, r, b)]\<rparr>)"

text \<open>
  Modelled from the spec: \<open>conditional_connect\<close> of an event and its advisory, an
  idempotent connect.
\<close>

definition store_conditional_connect :: "node_ref \<Rightarrow> rel \<Rightarrow> node_ref \<Rightarrow> store \<Rightarrow> store" where
  "store_conditional_connect a r b g = store_connect a r b g"

definition graph_store :: "store neo4j" where
  "graph_store =
     \<lparr>create_or_update = store_create_or_update,
      get_or_create = store_get_or_create,
      get_or_none = store_get_or_none,
      add_label = store_add_label,
      conditional_connect = store_conditional_connect,
      connect = store_connect\<rparr>"

definition empty_store :: store where
  "empty_store = \<lparr>nodes = [], edges = []\<rparr>"

definition initial :: "'g \<Rightarrow> 'g state" where
  "initial g = \<lparr>graph = g, calls = []\<rparr>"

section \<open>A feed to run on\<close>

text \<open>
  The end-to-end scenario: event 42 of advisory 7 with one build of task 101, whose task
  result lists the build 55. The parser of the scenario knows the documents below and
  rejects every other text.
\<close>

definition koji_result_xml :: string where
  "koji_result_xml =
     ''<methodResponse><params><param><value><struct><member>'' @
     ''<name>koji_builds</name><value><array><data>'' @
     ''<value><string>55</string></value>'' @
     ''</data></array></value></member></struct></value></param></params></methodResponse>''"

definition koji_result :: element where
  "koji_result =
     Element ''methodResponse'' None None
       [Element ''params'' None None
         [Element ''param'' None None
           [Element ''value'' None None
             [Element ''struct'' None None
               [Element ''member'' None None
                 [Element ''name'' (Some ''koji_builds'') None [],
                  Element ''value'' None None
                   [Element ''array'' None None
                     [Element ''data'' None None
                       [Element ''value'' None None
                         [Element ''string'' (Some ''55'') None []]]]]]]]]]]"

definition no_koji_builds_xml :: string where
  "no_koji_builds_xml =
     ''<methodResponse><member><name>task_id</name>'' @
     ''<value><string>55</string></value></member></methodResponse>''"

definition no_koji_builds :: element where
  "no_koji_builds =
     Element ''methodResponse'' None None
       [Element ''member'' None None
         [Element ''name'' (Some ''task_id'') None [],
          Element ''value'' None None [Element ''string'' (Some ''55'') None []]]]"

definition empty_koji_builds_xml :: string where
  "empty_koji_builds_xml =
     ''<methodResponse><member><name>koji_builds</name>'' @
     ''<value><array><data></data></array></value></member></methodResponse>''"

definition empty_koji_builds :: element where
  "empty_koji_builds =
     Element ''methodResponse'' None None
       [Element ''member'' None None
         [Element ''name'' (Some ''koji_builds'') None [],
          Element ''value'' None None [Element ''array'' None None [Element ''data'' None None []]]]]"

definition blank_koji_builds_xml :: string where
  "blank_koji_builds_xml =
     ''<methodResponse><member><name>koji_builds</name>'' @
     ''<value><string></string></value></member></methodResponse>''"

definition blank_koji_builds :: element where
  "blank_koji_builds =
     Element ''methodResponse'' None None
       [Element ''member'' None None
         [Element ''name'' (Some ''koji_builds'') None [],
          Element ''value'' None None [Element ''string'' None None []]]]"

text \<open>A text that is not well-formed: the elements are never closed.\<close>

definition truncated_xml :: string where
  "truncated_xml = ''<methodResponse><params>''"

definition parse_known :: "string \<Rightarrow> element option" where
  "parse_known x =
     (if x = koji_result_xml then Some koji_result
      else if x = no_koji_builds_xml then Some no_koji_builds
      else if x = empty_koji_builds_xml then Some empty_koji_builds
      else if x = blank_koji_builds_xml then Some blank_koji_builds
      else None)"

definition row_of :: "string \<Rightarrow> row" where
  "row_of x = [''result'' \<mapsto> PStr x]"

definition result_row :: row where
  "result_row = row_of koji_result_xml"

definition build101 :: build_dict where
  "build101 = \<lparr>build_id = PInt 101, original_nvr = PStr ''pkg-1.0-1''\<rparr>"

definition event42 :: fm_event where
  "event42 =
     \<lparr>event_id = PInt 42, event_type_id = PInt 8, message_id = PStr ''msg-42'',
      state = PInt 2, state_name = PStr ''COMPLETE'', state_reason = PStr ''done'',
      url = PStr ''/api/1/events/42'', search_key = PStr ''7'',
      builds = [build101]\<rparr>"

definition scenario :: env where
  "scenario =
     \<lparr>http_get = (\<lambda>u. if u = freshmaker_url
        then Inr \<lparr>items = [event42], meta_next = None\<rparr> else Inl RequestError),
      teiid_query = (\<lambda>t. if t = PInt 101 then Inr [result_row] else Inr []),
      fromstring = parse_known\<rparr>"

text \<open>
  Variations of the scenario: a one-page feed of the given events, where the query
  service answers every task with the given rows.
\<close>

definition feed :: "fm_event list \<Rightarrow> row list \<Rightarrow> env" where
  "feed evs rows =
     \<lparr>http_get = (\<lambda>u. if u = freshmaker_url
        then Inr \<lparr>items = evs, meta_next = None\<rparr> else Inl RequestError),
      teiid_query = (\<lambda>t. Inr rows),
      fromstring = parse_known\<rparr>"



definition event07 :: fm_event where
  "event07 = event42\<lparr>search_key := PStr ''07''\<rparr>"

definition build_abc :: build_dict where
  "build_abc = \<lparr>build_id = PStr ''abc'', original_nvr = PStr ''pkg-1.0-1''\<rparr>"

definition build0 :: build_dict where
  "build0 = \<lparr>build_id = PInt 0, original_nvr = PStr ''pkg-1.0-1''\<rparr>"






section \<open>A finite feed\<close>

text \<open>
  A feed of finitely many pages, as the pagination claim describes it: the pages with the
  URLs they are fetched from, the first one at the URL the loop starts with, each page
  but the last carrying the URL of the next one as its \<open>next\<close> reference, and the last
  one carrying none (or an empty one, which line 112 takes for none).
\<close>

fun linked :: "env \<Rightarrow> string \<Rightarrow> (string \<times> page) list \<Rightarrow> bool" where
  "linked e u [] = False"
| "linked e u [(v, p)] =
     (v = u \<and> http_get e u = Inr p \<and> (meta_next p = None \<or> meta_next p = Some []))"
| "linked e u ((v, p) # (w, q) # ps) =
     (v = u \<and> http_get e u = Inr p \<and> meta_next p = Some w \<and> w \<noteq> [] \<and>
      linked e w ((w, q) # ps))"

text \<open>
  What the claim says of such a feed, as a function of the list of its pages: each page
  is fetched, then its items are processed in their order, then the next page is turned
  to; an exception of an item ends it.
\<close>

fun process_pages ::
  "'g neo4j \<Rightarrow> env \<Rightarrow> (string \<times> page) list \<Rightarrow> 'g state \<Rightarrow> error option \<times> 'g state" where
  "process_pages cl e [] s = (None, s)"
| "process_pages cl e ((u, p) # ps) s =
     (case process_events cl e (items p) (called (HttpGet u) s) of
        (Some err, s1) \<Rightarrow> (Some err, s1)
      | (None, s1) \<Rightarrow> process_pages cl e ps s1)"

text \<open>The URLs fetched, read off the calls.\<close>

fun fetches :: "call list \<Rightarrow> string list" where
  "fetches [] = []"
| "fetches (HttpGet u # cs) = u # fetches cs"
| "fetches (c # cs) = fetches cs"

text \<open>A feed of three pages, and one of two pages whose first page has the build entry
  of task id \<open>abc\<close>.\<close>

definition event_of :: "int \<Rightarrow> string \<Rightarrow> build_dict list \<Rightarrow> fm_event" where
  "event_of i k bds = event42\<lparr>event_id := PInt i, search_key := PStr k, builds := bds\<rparr>"

definition page1 :: page where
  "page1 = \<lparr>items = [event_of 1 ''7'' []], meta_next = Some ''https://freshmaker/page2''\<rparr>"

definition page2 :: page where
  "page2 = \<lparr>items = [event_of 2 ''8'' []], meta_next = Some ''https://freshmaker/page3''\<rparr>"

definition page3 :: page where
  "page3 = \<lparr>items = [event_of 3 ''9'' [build101]], meta_next = None\<rparr>"

definition three_pages :: env where
  "three_pages =
     scenario\<lparr>http_get := (\<lambda>u.
        if u = freshmaker_url then Inr page1
        else if u = ''https://freshmaker/page2'' then Inr page2
        else if u = ''https://freshmaker/page3'' then Inr page3
        else Inl RequestError)\<rparr>"

definition bad_page1 :: page where
  "bad_page1 =
     \<lparr>items = [event_of 1 ''7'' [build_abc]], meta_next = Some ''https://freshmaker/page3''\<rparr>"

definition two_pages :: env where
  "two_pages =
     scenario\<lparr>http_get := (\<lambda>u.
        if u = freshmaker_url then Inr bad_page1
        else if u = ''https://freshmaker/page3'' then Inr page3
        else Inl RequestError)\<rparr>"

section \<open>How an exception leaves the loops\<close>

lemma calls_called [simp]: "calls (called c s) = calls s @ [c]"
  by (simp add: called_def)

lemma graph_called [simp]: "graph (called c s) = graph s"
  by (simp add: called_def)

lemma process_builds_raise:
  "process_build cl e event bd s = (Some err, s1) \<Longrightarrow>
   process_builds cl e event (bd # bds) s = (Some err, s1)"
  by simp

lemma process_events_raise:
  "process_event cl e ev s = (Some err, s1) \<Longrightarrow>
   process_events cl e (ev # evs) s = (Some err, s1)"
  by simp

lemma query_loop_raise:
  "http_get e fm_url = Inr rv_json \<Longrightarrow>
   process_events cl e (items rv_json) (called (HttpGet fm_url) s) = (Some err, s1) \<Longrightarrow>
   query_loop cl e fm_url s = Some (Some err, s1)"
  by (subst query_loop.simps) simp

lemma process_event_builds:
  "py_int (search_key ev) = Inr k \<Longrightarrow>
   create_or_update cl FreshmakerEvent (event_params ev) (graph s) = Inr (event, g1) \<Longrightarrow>
   get_or_create cl Advisory (advisory_params ev) g1 = Inr (advisory, g2) \<Longrightarrow>
   process_event cl e ev s =
     process_builds cl e event (builds ev)
       \<lparr>graph = conditional_connect cl event triggered_by_advisory advisory g2,
        calls = calls s @ [CreateOrUpdate FreshmakerEvent (event_params ev),
          GetOrCreate Advisory (advisory_params ev),
          ConditionalConnect event triggered_by_advisory advisory]\<rparr>"
  by (cases s) (simp add: process_event_def called_def)

lemmas int_defs = int_of_str_def strip_def is_space_def unsigned_def digit_val_def
lemmas xml_defs = extract_build_id_def find_koji_builds_def findall_koji_builds_def
  descendants_def has_name_def str_of_def
lemmas store_defs = graph_store_def store_create_or_update_def store_get_or_create_def
  store_get_or_none_def store_add_label_def store_connect_def store_conditional_connect_def
  matches_def claims_def set_attrs_def empty_store_def initial_def
lemmas fixture_defs = scenario_def feed_def parse_known_def koji_result_xml_def
  no_koji_builds_xml_def empty_koji_builds_xml_def blank_koji_builds_xml_def truncated_xml_def
  result_row_def row_of_def build101_def event42_def
lemmas scraper_defs = process_event_def process_build_def resolve_build_id_def
  create_container_build_def get_koji_task_result_def et_fromstring_def called_def
  event_params_def advisory_params_def build_params_def

section \<open>The calls of a step extend the calls made before it\<close>

lemma get_koji_task_result_calls:
  "calls (snd (get_koji_task_result e t s)) = calls s @ [TeiidQuery t]"
  by (simp add: get_koji_task_result_def split: sum.splits list.splits option.splits)

lemma get_koji_task_result_graph:
  "graph (snd (get_koji_task_result e t s)) = graph s"
  by (simp add: get_koji_task_result_def split: sum.splits list.splits option.splits)

lemma get_koji_task_result_state:
  "snd (get_koji_task_result e t s) = called (TeiidQuery t) s"
  by (simp add: get_koji_task_result_def split: sum.splits list.splits option.splits)

lemma resolve_build_id_state:
  "snd (resolve_build_id e bd s) = s \<or> snd (resolve_build_id e bd s) = called (TeiidQuery (build_id bd)) s"
  using get_koji_task_result_state [of e "build_id bd" s]
  by (auto simp: resolve_build_id_def split: sum.splits prod.splits option.splits)

lemma create_container_build_calls:
  "\<exists>cs. calls (snd (create_container_build cl p bid s)) = calls s @ cs"
  by (simp add: create_container_build_def Let_def split: sum.splits prod.splits option.splits)

lemma process_build_calls:
  "\<exists>cs. calls (snd (process_build cl e event bd s)) = calls s @ cs"
proof -
  obtain r s1 where r: "resolve_build_id e bd s = (r, s1)" by (cases "resolve_build_id e bd s")
  with resolve_build_id_state [of e bd s] have s1: "\<exists>cs. calls s1 = calls s @ cs" by auto
  show ?thesis
  proof (cases r)
    case (Inl err)
    with r s1 show ?thesis by (simp add: process_build_def)
  next
    case (Inr o1)
    show ?thesis
    proof (cases o1)
      case None
      with Inr r s1 show ?thesis by (simp add: process_build_def)
    next
      case (Some bid)
      obtain r2 s2 where c: "create_container_build cl (build_params bid bd) (PStr bid) s1 = (r2, s2)"
        by (cases "create_container_build cl (build_params bid bd) (PStr bid) s1")
      with create_container_build_calls [of cl "build_params bid bd" "PStr bid" s1]
      have "\<exists>cs. calls s2 = calls s1 @ cs" by simp
      with s1 have "\<exists>cs. calls s2 = calls s @ cs" by auto
      with Some Inr r c show ?thesis
        by (cases r2) (auto simp: process_build_def)
    qed
  qed
qed

lemma process_builds_calls:
  "\<exists>cs. calls (snd (process_builds cl e event bds s)) = calls s @ cs"
proof (induction bds arbitrary: s)
  case Nil
  then show ?case by simp
next
  case (Cons bd bds)
  obtain r s1 where p: "process_build cl e event bd s = (r, s1)"
    by (cases "process_build cl e event bd s")
  with process_build_calls [of cl e event bd s] obtain cs where cs: "calls s1 = calls s @ cs"
    by auto
  show ?case
  proof (cases r)
    case None
    from Cons.IH [of s1] obtain cs' where "calls (snd (process_builds cl e event bds s1)) = calls s1 @ cs'"
      by auto
    with None p cs show ?thesis by simp
  next
    case (Some err)
    with p cs show ?thesis by simp
  qed
qed

section \<open>From a step of the loops to the run\<close>







section \<open>Build entries whose task id is not an integer\<close>

text \<open>
  Claim C10. A build entry whose \<open>build_id\<close> is present and not empty but does not
  convert to an integer (the string \<open>abc\<close>) makes the conversion in the filter of line
  73 raise. Nothing catches the exception: the entry is not skipped, the loops end and
  the run returns the error, with the writes made so far for the event in the graph.
\<close>

theorem non_integer_build_id_aborts_run:
  assumes "\<not> falsy (build_id bd)"
    and "py_int (build_id bd) = Inl err"
    and "http_get e freshmaker_url = Inr rv_json"
    and "items rv_json = ev # evs"
    and "py_int (search_key ev) = Inr k"
    and "create_or_update cl FreshmakerEvent (event_params ev) (graph s) = Inr (event, g1)"
    and "get_or_create cl Advisory (advisory_params ev) g1 = Inr (advisory, g2)"
    and "builds ev = bd # bds"
  shows "process_build cl e event bd s = (Some err, s) \<and>
         run cl e since until s =
           Some (Some err,
             \<lparr>graph = conditional_connect cl event triggered_by_advisory advisory g2,
              calls = calls s @ [HttpGet freshmaker_url,
                CreateOrUpdate FreshmakerEvent (event_params ev),
                GetOrCreate Advisory (advisory_params ev),
                ConditionalConnect event triggered_by_advisory advisory]\<rparr>)"
proof -
  have b: "process_build cl e event bd s' = (Some err, s')" for s' :: "'a state"
    using assms(1,2) by (simp add: process_build_def resolve_build_id_def)
  let ?s0 = "called (HttpGet freshmaker_url) s"
  let ?s1 = "\<lparr>graph = conditional_connect cl event triggered_by_advisory advisory g2,
              calls = calls s @ [HttpGet freshmaker_url,
                CreateOrUpdate FreshmakerEvent (event_params ev),
                GetOrCreate Advisory (advisory_params ev),
                ConditionalConnect event triggered_by_advisory advisory]\<rparr>"
  have "process_event cl e ev ?s0 = process_builds cl e event (builds ev) ?s1"
    using process_event_builds [of ev k cl ?s0 event g1 advisory g2 e] assms(5,6,7) by simp
  also have "\<dots> = (Some err, ?s1)"
    using assms(8) by (simp add: b)
  finally have "process_events cl e (items rv_json) ?s0 = (Some err, ?s1)"
    using assms(4) by simp
  with assms(3) have "query_loop cl e freshmaker_url s = Some (Some err, ?s1)"
    by (rule query_loop_raise)
  with b show ?thesis
    by (simp add: run_def query_api_and_update_neo4j_def)
qed

theorem non_integer_build_id_aborts_run_witness:
  "\<not> falsy (build_id build_abc) \<and> py_int (build_id build_abc) = Inl ValueError \<and>
   process_build graph_store (feed [event42\<lparr>builds := [build_abc]\<rparr>] [result_row])
     0 build_abc (initial empty_store) = (Some ValueError, initial empty_store) \<and>
   map_option fst (run graph_store
     (feed [event42\<lparr>builds := [build_abc]\<rparr>] [result_row])
     PNone PNone (initial empty_store)) = Some (Some ValueError)"
proof -
  let ?ev = "event42\<lparr>builds := [build_abc]\<rparr>"
  let ?e = "feed [?ev] [result_row]"
  let ?g1 = "\<lparr>nodes = [\<lparr>labels = [FreshmakerEvent], attrs = map_of (event_params ?ev)\<rparr>], edges = []\<rparr>"
  let ?g2 = "\<lparr>nodes = [\<lparr>labels = [FreshmakerEvent], attrs = map_of (event_params ?ev)\<rparr>,
     \<lparr>labels = [Advisory], attrs = map_of (advisory_params ?ev)\<rparr>], edges = []\<rparr>"
  have 1: "\<not> falsy (build_id build_abc)" by (simp add: build_abc_def)
  have 2: "py_int (build_id build_abc) = Inl ValueError"
    by (simp add: build_abc_def int_defs)
  have 3: "http_get ?e freshmaker_url = Inr \<lparr>items = [?ev], meta_next = None\<rparr>"
    by (simp add: feed_def)
  have 4: "items \<lparr>items = [?ev], meta_next = None\<rparr> = ?ev # []" by simp
  have 5: "py_int (search_key ?ev) = Inr 7" by (simp add: event42_def int_defs)
  have 6: "create_or_update graph_store FreshmakerEvent (event_params ?ev) (graph (initial empty_store))
     = Inr (0, ?g1)"
    by (simp add: store_defs event_params_def)
  have 7: "get_or_create graph_store Advisory (advisory_params ?ev) ?g1 = Inr (1, ?g2)"
    by (simp add: store_defs event_params_def advisory_params_def event42_def)
  have 8: "builds ?ev = build_abc # []" by simp
  from non_integer_build_id_aborts_run [OF 1 2 3 4 5 6 7 8, of PNone PNone] 1 2
  show ?thesis by simp
qed

section \<open>The filter on the task id\<close>

lemma process_build_resolves:
  assumes "\<not> falsy (build_id bd)" and "py_int (build_id bd) = Inr n" and "0 \<le> n"
  shows "\<exists>cs. calls (snd (process_build cl e event bd s)) = calls s @ TeiidQuery (build_id bd) # cs"
proof -
  let ?s1 = "called (TeiidQuery (build_id bd)) s"
  obtain r s1 where r: "resolve_build_id e bd s = (r, s1)" by (cases "resolve_build_id e bd s")
  have "snd (resolve_build_id e bd s) = ?s1"
    using assms get_koji_task_result_state [of e "build_id bd" s]
    by (auto simp: resolve_build_id_def split: sum.splits prod.splits option.splits)
  with r have s1: "s1 = ?s1" by simp
  show ?thesis
  proof (cases r)
    case (Inl err)
    with r s1 show ?thesis by (simp add: process_build_def)
  next
    case (Inr o1)
    show ?thesis
    proof (cases o1)
      case None
      with Inr r s1 show ?thesis by (simp add: process_build_def)
    next
      case (Some bid)
      obtain r2 s2 where c: "create_container_build cl (build_params bid bd) (PStr bid) ?s1 = (r2, s2)"
        by (cases "create_container_build cl (build_params bid bd) (PStr bid) ?s1")
      with create_container_build_calls [of cl "build_params bid bd" "PStr bid" ?s1]
      have "\<exists>cs. calls s2 = calls s @ TeiidQuery (build_id bd) # cs" by simp
      with Some Inr r c s1 show ?thesis
        by (cases r2) (auto simp: process_build_def)
    qed
  qed
qed

text \<open>
  Claim C4, as the code has it. For a build entry whose \<open>build_id\<close> is falsy or
  converts to an integer, the entry is skipped at the filter of line 73 (the state is
  untouched: no query, no call to the graph, so no Build node) exactly when the
  \<open>build_id\<close> is falsy (\<open>None\<close>, \<open>0\<close>, the empty string, \<open>False\<close>) or negative. An
  entry with a truthy, non-negative \<open>build_id\<close> goes on to the task lookup: the next
  call made is the query for its task id.
\<close>

theorem build_filter_skips_falsy_or_negative:
  assumes "falsy (build_id bd) \<or> (\<exists>n. py_int (build_id bd) = Inr n)"
  shows "(process_build cl e event bd s = (None, s) \<longleftrightarrow>
            falsy (build_id bd) \<or> (\<exists>n. py_int (build_id bd) = Inr n \<and> n < 0)) \<and>
         (\<not> falsy (build_id bd) \<and> (\<exists>n. py_int (build_id bd) = Inr n \<and> 0 \<le> n) \<longrightarrow>
            (\<exists>cs. calls (snd (process_build cl e event bd s)) =
               calls s @ TeiidQuery (build_id bd) # cs))"
proof (intro conjI impI)
  show "process_build cl e event bd s = (None, s) \<longleftrightarrow>
          falsy (build_id bd) \<or> (\<exists>n. py_int (build_id bd) = Inr n \<and> n < 0)"
  proof
    assume skip: "process_build cl e event bd s = (None, s)"
    show "falsy (build_id bd) \<or> (\<exists>n. py_int (build_id bd) = Inr n \<and> n < 0)"
    proof (rule ccontr)
      assume "\<not> ?thesis"
      with assms obtain n where "\<not> falsy (build_id bd)" "py_int (build_id bd) = Inr n" "0 \<le> n"
        by force
      from process_build_resolves [OF this, of cl e event s] skip show False by simp
    qed
  next
    assume "falsy (build_id bd) \<or> (\<exists>n. py_int (build_id bd) = Inr n \<and> n < 0)"
    then show "process_build cl e event bd s = (None, s)"
      by (auto simp: process_build_def resolve_build_id_def)
  qed
next
  assume "\<not> falsy (build_id bd) \<and> (\<exists>n. py_int (build_id bd) = Inr n \<and> 0 \<le> n)"
  then show "\<exists>cs. calls (snd (process_build cl e event bd s)) =
               calls s @ TeiidQuery (build_id bd) # cs"
    using process_build_resolves by blast
qed

theorem build_filter_skips_falsy_or_negative_witness:
  "(falsy (build_id build101) \<or> (\<exists>n. py_int (build_id build101) = Inr n)) \<and>
   process_build graph_store scenario 0 build101 (initial empty_store) \<noteq> (None, initial empty_store) \<and>
   (\<exists>cs. calls (snd (process_build graph_store scenario 0 build101 (initial empty_store))) =
      calls (initial empty_store) @ TeiidQuery (build_id build101) # cs) \<and>
   (falsy (build_id (build101\<lparr>build_id := PInt (- 5)\<rparr>)) \<or>
      (\<exists>n. py_int (build_id (build101\<lparr>build_id := PInt (- 5)\<rparr>)) = Inr n)) \<and>
   process_build graph_store scenario 0 (build101\<lparr>build_id := PInt (- 5)\<rparr>) (initial empty_store)
     = (None, initial empty_store) \<and>
   (falsy (build_id (build101\<lparr>build_id := PNone\<rparr>)) \<or>
      (\<exists>n. py_int (build_id (build101\<lparr>build_id := PNone\<rparr>)) = Inr n)) \<and>
   process_build graph_store scenario 0 (build101\<lparr>build_id := PNone\<rparr>) (initial empty_store)
     = (None, initial empty_store)"
proof -
  have 1: "falsy (build_id build101) \<or> (\<exists>n. py_int (build_id build101) = Inr n)"
    by (simp add: build101_def)
  have 2: "falsy (build_id (build101\<lparr>build_id := PInt (- 5)\<rparr>)) \<or>
      (\<exists>n. py_int (build_id (build101\<lparr>build_id := PInt (- 5)\<rparr>)) = Inr n)"
    by simp
  have 3: "falsy (build_id (build101\<lparr>build_id := PNone\<rparr>)) \<or>
      (\<exists>n. py_int (build_id (build101\<lparr>build_id := PNone\<rparr>)) = Inr n)"
    by simp
  have a: "\<not> falsy (build_id build101) \<and> (\<exists>n. py_int (build_id build101) = Inr n \<and> 0 \<le> n)"
    "\<not> (falsy (build_id build101) \<or> (\<exists>n. py_int (build_id build101) = Inr n \<and> n < 0))"
    by (simp_all add: build101_def)
  from build_filter_skips_falsy_or_negative [OF 1, of graph_store scenario 0 "initial empty_store"]
    build_filter_skips_falsy_or_negative [OF 2, of graph_store scenario 0 "initial empty_store"]
    build_filter_skips_falsy_or_negative [OF 3, of graph_store scenario 0 "initial empty_store"]
    1 2 3 a
  show ?thesis by simp
qed

text \<open>
  The claim as written fails at the task id \<open>0\<close>: it is present and not negative, and
  the entry is skipped at the filter all the same, although the query service has a
  result for every task.
\<close>

theorem build_filter_counterexample:
  "build_id build0 \<noteq> PNone \<and> py_int (build_id build0) = Inr 0 \<and>
   process_build graph_store (feed [] [result_row]) 0 build0
     (initial empty_store) = (None, initial empty_store)"
  by (simp add: build0_def process_build_def resolve_build_id_def)

section \<open>The identity of the advisory\<close>

text \<open>
  Claim C5, as the code has it. For an event that passes the integer filter, the
  integer that the conversion of line 49 returns is dropped; the Advisory is looked up
  or created with the \<open>search_key\<close> of the event as it stands in the feed as its
  identity. For the search key \<open>7\<close> that is the string \<open>7\<close>.
\<close>

theorem advisory_identity_is_search_key:
  assumes "py_int (search_key ev) = Inr k"
    and "create_or_update cl FreshmakerEvent (event_params ev) (graph s) = Inr (event, g1)"
  shows "\<exists>cs. calls (snd (process_event cl e ev s)) =
           calls s @ [CreateOrUpdate FreshmakerEvent (event_params ev),
             GetOrCreate Advisory [(''id_'', search_key ev)]] @ cs"
proof (cases "get_or_create cl Advisory (advisory_params ev) g1")
  case (Inl err)
  with assms show ?thesis
    by (simp add: process_event_def advisory_params_def)
next
  case (Inr a)
  obtain advisory g2 where a: "a = (advisory, g2)" by (cases a)
  let ?s2 = "\<lparr>graph = conditional_connect cl event triggered_by_advisory advisory g2,
        calls = calls s @ [CreateOrUpdate FreshmakerEvent (event_params ev),
          GetOrCreate Advisory (advisory_params ev),
          ConditionalConnect event triggered_by_advisory advisory]\<rparr>"
  have "process_event cl e ev s = process_builds cl e event (builds ev) ?s2"
    using assms Inr a by (intro process_event_builds) simp_all
  moreover obtain cs where "calls (snd (process_builds cl e event (builds ev) ?s2)) = calls ?s2 @ cs"
    using process_builds_calls by blast
  ultimately show ?thesis by (simp add: advisory_params_def)
qed

theorem advisory_identity_is_search_key_witness:
  "py_int (search_key event42) = Inr 7 \<and>
   (\<exists>cs. calls (snd (process_event graph_store scenario event42 (initial empty_store))) =
      calls (initial empty_store) @ [CreateOrUpdate FreshmakerEvent (event_params event42),
        GetOrCreate Advisory [(''id_'', PStr ''7'')]] @ cs)"
proof -
  have 1: "py_int (search_key event42) = Inr 7" by (simp add: event42_def int_defs)
  have 2: "create_or_update graph_store FreshmakerEvent (event_params event42)
     (graph (initial empty_store)) =
       Inr (0, \<lparr>nodes = [\<lparr>labels = [FreshmakerEvent], attrs = map_of (event_params event42)\<rparr>],
         edges = []\<rparr>)"
    by (simp add: store_defs event_params_def)
  have 3: "search_key event42 = PStr ''7''" by (simp add: event42_def)
  from advisory_identity_is_search_key [OF 1 2, of scenario] 1 3 show ?thesis by simp
qed

text \<open>
  The claim as written fails for the search key \<open>07\<close>: it passes the filter with the
  integer 7, and the Advisory is created under the identity \<open>07\<close>, next to the Advisory
  \<open>7\<close> of event 42.
\<close>

theorem advisory_identity_counterexample:
  "py_int (search_key event07) = Inr 7 \<and> py_int (search_key event42) = Inr 7 \<and>
   fst (process_events graph_store scenario [event42, event07] (initial empty_store)) = None \<and>
   labels (nodes (graph (snd (process_events graph_store scenario [event42, event07]
     (initial empty_store)))) ! 1) = [Advisory] \<and>
   attrs (nodes (graph (snd (process_events graph_store scenario [event42, event07]
     (initial empty_store)))) ! 1) ''id_'' = Some (PStr ''7'') \<and>
   labels (nodes (graph (snd (process_events graph_store scenario [event42, event07]
     (initial empty_store)))) ! 3) = [Advisory] \<and>
   attrs (nodes (graph (snd (process_events graph_store scenario [event42, event07]
     (initial empty_store)))) ! 3) ''id_'' = Some (PStr ''07'') \<and>
   calls (snd (process_event graph_store scenario event07 (initial empty_store))) ! 1 =
     GetOrCreate Advisory [(''id_'', PStr ''07'')]"
  by (simp add: event07_def fixture_defs koji_result_def
      scraper_defs store_defs int_defs xml_defs)

section \<open>Events whose search key is not an integer\<close>




section \<open>A task result that is not well-formed XML\<close>




section \<open>Tasks without a build\<close>







section \<open>The repair of a build created under the wrong label\<close>





end
